theory Spec2Isabelle
  imports Main "HOL-Library.Word" "HOL-Library.Sublist"
begin

section \<open>Cluster membership bookkeeping (cluster/member.go)\<close>

subsection \<open>Library types: wall clock instants, durations, the random source\<close>

text \<open>
  Go's \<^verbatim>\<open>time.Time\<close> is an instant of the wall clock. It is modelled by its distance
  in nanoseconds from the zero value \<^verbatim>\<open>time.Time{}\<close> (January 1, year 1, 00:00:00
  UTC), on one time line. \<^verbatim>\<open>time.Duration\<close> is a signed 64-bit count of nanoseconds;
  it is modelled as an integer, and \<^verbatim>\<open>t.Sub(u)\<close> is the difference \<open>t - u\<close>
  saturated to the range of a 64-bit signed integer, as the library documents it.
\<close>

type_synonym Time = int
type_synonym Duration = int

definition zeroTime :: Time where
  "zeroTime = 0"

definition minDuration :: Duration where
  "minDuration = - (2 ^ 63)"

definition maxDuration :: Duration where
  "maxDuration = 2 ^ 63 - 1"

definition Second :: Duration where
  "Second = 1000000000"

definition Time_Sub :: "Time \<Rightarrow> Time \<Rightarrow> Duration" where
  "Time_Sub t u =
     (if t - u < minDuration then minDuration
      else if maxDuration < t - u then maxDuration
      else t - u)"

text \<open>
  Errors of the run time are values. \<^verbatim>\<open>rand.Int31n(n)\<close> panics with
  "invalid argument to Int31n" when \<open>n \<le> 0\<close>; indexing a slice out of range panics too.
\<close>

datatype error = Panic_Int31n_invalid_argument | Panic_index_out_of_range

text \<open>
  The conversion \<^verbatim>\<open>int32(x)\<close> keeps the low 32 bits of \<open>x\<close>, read as two's
  complement.
\<close>

definition int32 :: "int \<Rightarrow> int" where
  "int32 x = (x + 2 ^ 31) mod 2 ^ 32 - 2 ^ 31"

text \<open>
  \<^verbatim>\<open>rand.Int31n(n)\<close> returns a number of \<open>[0, n)\<close> chosen by the process-wide
  generator. The generator's draw is the explicit argument \<open>r\<close>; every number of
  \<open>[0, n)\<close> is the result for some draw.
\<close>

definition Int31n :: "nat \<Rightarrow> int \<Rightarrow> error + int" where
  "Int31n r n = (if n \<le> 0 then Inl Panic_Int31n_invalid_argument else Inr (int r mod n))"

subsection \<open>Types declared elsewhere in the package\<close>

text \<open>
  Modelled from the spec: the declaration of \<^verbatim>\<open>logicalTime\<close> and of its constant
  \<^verbatim>\<open>zeroLogicalTime\<close> is not in member.go. The spec describes a totally ordered
  unsigned integer counter with a zero value; it is a 64-bit unsigned word here.
  The types \<^verbatim>\<open>messageType\<close> and \<^verbatim>\<open>MemberStatus\<close> are declared elsewhere too;
  member.go only stores them and compares message types for equality, so they are the
  type parameters \<open>'k\<close> and \<open>'s\<close>.
\<close>

type_synonym logicalTime = "64 word"

definition zeroLogicalTime :: logicalTime where
  "zeroLogicalTime = 0"

subsection \<open>member, memberStatus\<close>

record 's member =
  name :: string
  tags :: "string \<rightharpoonup> string"
  address :: "8 word list"
  port :: "16 word"
  status :: 's
  memberListProtocolMin :: "8 word"
  memberListProtocolMax :: "8 word"
  memberListProtocolCurrent :: "8 word"
  clusterProtocolMin :: "8 word"
  clusterProtocolMax :: "8 word"
  clusterProtocolCurrent :: "8 word"

text \<open>\<^verbatim>\<open>memberStatus\<close> embeds \<^verbatim>\<open>member\<close>: its fields are promoted.\<close>

record 's memberStatus = "'s member" +
  lastMessageTime :: logicalTime
  goneTime :: Time

subsection \<open>memberStatusBook\<close>

text \<open>
  The slice of pointers \<^verbatim>\<open>[]*memberStatus\<close> is a list of records: no function of
  member.go writes through one of the pointers or compares two of them.
  A method that changes the book returns its result paired with the new book.
\<close>

record 's memberStatusBook =
  members :: "'s memberStatus list"
  timeout :: Duration

definition createMemberStatusBook :: "Duration \<Rightarrow> 's memberStatusBook" where
  "createMemberStatusBook tmo = \<lparr>members = [], timeout = tmo\<rparr>"

definition memberStatusBook_Count :: "'s memberStatusBook \<Rightarrow> int" where
  "memberStatusBook_Count msb = int (length (members msb))"

definition memberStatusBook_add ::
  "'s memberStatus \<Rightarrow> 's memberStatusBook \<Rightarrow> 's memberStatusBook" where
  "memberStatusBook_add ms msb = msb\<lparr>members := members msb @ [ms]\<rparr>"

definition memberStatusBook_randGet ::
  "nat \<Rightarrow> 's memberStatusBook \<Rightarrow> error + 's memberStatus" where
  "memberStatusBook_randGet r msb =
     (case Int31n r (int32 (int (length (members msb)))) of
        Inl e \<Rightarrow> Inl e
      | Inr i \<Rightarrow>
          if 0 \<le> i \<and> nat i < length (members msb) then Inr (members msb ! nat i)
          else Inl Panic_index_out_of_range)"

fun remove_loop ::
  "string \<Rightarrow> 's memberStatus list \<Rightarrow> 's memberStatus list \<Rightarrow> int
     \<Rightarrow> 's memberStatus list \<times> int" where
  "remove_loop memberName [] members' removed = (members', removed)"
| "remove_loop memberName (ms # rest) members' removed =
     (if name ms = memberName then remove_loop memberName rest members' (removed + 1)
      else remove_loop memberName rest (members' @ [ms]) removed)"

definition memberStatusBook_remove ::
  "string \<Rightarrow> 's memberStatusBook \<Rightarrow> int \<times> 's memberStatusBook" where
  "memberStatusBook_remove memberName msb =
     (case remove_loop memberName (members msb) [] 0 of
        (members', removed) \<Rightarrow> (removed, msb\<lparr>members := members'\<rparr>))"

fun cleanup_loop ::
  "Time \<Rightarrow> Duration \<Rightarrow> 's memberStatus list \<Rightarrow> 's memberStatus list
     \<Rightarrow> 's memberStatus list \<Rightarrow> 's memberStatus list \<times> 's memberStatus list" where
  "cleanup_loop now tmo [] keepMembers removedMembers = (keepMembers, removedMembers)"
| "cleanup_loop now tmo (ms # rest) keepMembers removedMembers =
     (if Time_Sub now (goneTime ms) \<le> tmo
      then cleanup_loop now tmo rest (keepMembers @ [ms]) removedMembers
      else cleanup_loop now tmo rest keepMembers (removedMembers @ [ms]))"

definition memberStatusBook_cleanup ::
  "Time \<Rightarrow> 's memberStatusBook \<Rightarrow> 's memberStatus list \<times> 's memberStatusBook" where
  "memberStatusBook_cleanup now msb =
     (case cleanup_loop now (timeout msb) (members msb) [] [] of
        (keepMembers, removedMembers) \<Rightarrow> (removedMembers, msb\<lparr>members := keepMembers\<rparr>))"

fun names_loop :: "'s memberStatus list \<Rightarrow> string list \<Rightarrow> string list" where
  "names_loop [] ret = ret"
| "names_loop (ms # rest) ret = names_loop rest (ret @ [name ms])"

definition memberStatusBook_names :: "'s memberStatusBook \<Rightarrow> string list" where
  "memberStatusBook_names msb = names_loop (members msb) []"

subsection \<open>memberOperation, memberOperationBook\<close>

record 'k memberOperation =
  msgType :: 'k
  messageTime :: logicalTime
  receiveTime :: Time

text \<open>
  The book's \<^verbatim>\<open>timeout\<close> field is \<open>opTimeout\<close> here: a record field of the same
  name would hide the one of \<open>memberStatusBook\<close>.
\<close>

record 'k memberOperationBook =
  operations :: "string \<rightharpoonup> 'k memberOperation"
  opTimeout :: Duration

definition createMemberOperationBook :: "Duration \<Rightarrow> 'k memberOperationBook" where
  "createMemberOperationBook tmo = \<lparr>operations = Map.empty, opTimeout = tmo\<rparr>"

text \<open>
  \<^verbatim>\<open>save\<close> reads the wall clock with \<^verbatim>\<open>time.Now()\<close>; the reading is the explicit
  argument \<open>clock\<close>.
\<close>

definition memberOperationBook_save ::
  "Time \<Rightarrow> 'k \<Rightarrow> string \<Rightarrow> logicalTime \<Rightarrow> 'k memberOperationBook
     \<Rightarrow> bool \<times> 'k memberOperationBook" where
  "memberOperationBook_save clock kind nodeName msgTime mob =
     (if (case operations mob nodeName of
            None \<Rightarrow> True
          | Some operation \<Rightarrow> msgTime > messageTime operation)
      then (True,
            mob\<lparr>operations := (operations mob)(nodeName \<mapsto>
              \<lparr>msgType = kind, messageTime = msgTime, receiveTime = clock\<rparr>)\<rparr>)
      else (False, mob))"

definition memberOperationBook_get ::
  "string \<Rightarrow> 'k \<Rightarrow> 'k memberOperationBook \<Rightarrow> bool \<times> logicalTime" where
  "memberOperationBook_get nodeName kind mob =
     (case operations mob nodeName of
        None \<Rightarrow> (False, zeroLogicalTime)
      | Some operation \<Rightarrow>
          if msgType operation \<noteq> kind then (False, zeroLogicalTime)
          else (True, messageTime operation))"

text \<open>
  Go leaves the order in which \<^verbatim>\<open>range\<close> visits the keys of a map open. The order of
  one sweep is the explicit argument \<open>order\<close>, a list of the keys of the map. A key
  deleted before the loop reaches it is not visited.
\<close>

fun operations_cleanup_loop ::
  "Time \<Rightarrow> Duration \<Rightarrow> string list \<Rightarrow> (string \<rightharpoonup> 'k memberOperation)
     \<Rightarrow> (string \<rightharpoonup> 'k memberOperation)" where
  "operations_cleanup_loop now tmo [] ops = ops"
| "operations_cleanup_loop now tmo (nodeName # rest) ops =
     (case ops nodeName of
        None \<Rightarrow> operations_cleanup_loop now tmo rest ops
      | Some operation \<Rightarrow>
          if Time_Sub now (receiveTime operation) > tmo
          then operations_cleanup_loop now tmo rest (ops(nodeName := None))
          else operations_cleanup_loop now tmo rest ops)"

definition memberOperationBook_cleanup ::
  "string list \<Rightarrow> Time \<Rightarrow> 'k memberOperationBook \<Rightarrow> 'k memberOperationBook" where
  "memberOperationBook_cleanup order now mob =
     mob\<lparr>operations := operations_cleanup_loop now (opTimeout mob) order (operations mob)\<rparr>"

text \<open>
  A sequence of \<^verbatim>\<open>save\<close> calls on one book, each with its clock reading, message
  type, node name and logical time; the results are dropped.
\<close>

fun save_sequence ::
  "(Time \<times> 'k \<times> string \<times> logicalTime) list \<Rightarrow> 'k memberOperationBook
     \<Rightarrow> 'k memberOperationBook" where
  "save_sequence [] mob = mob"
| "save_sequence ((clock, kind, nodeName, msgTime) # calls) mob =
     save_sequence calls (snd (memberOperationBook_save clock kind nodeName msgTime mob))"

subsection \<open>Concrete data for the worked examples\<close>

text \<open>
  A member status record with the given name and gone time, and a wall clock reading in
  the year 2025 (in nanoseconds since the zero time).
\<close>

definition example_status :: "string \<Rightarrow> Time \<Rightarrow> nat memberStatus" where
  "example_status nodeName gone =
     \<lparr>name = nodeName, tags = Map.empty, address = [10, 0, 0, 1], port = 9099, status = 0,
      memberListProtocolMin = 1, memberListProtocolMax = 1, memberListProtocolCurrent = 1,
      clusterProtocolMin = 1, clusterProtocolMax = 1, clusterProtocolCurrent = 1,
      lastMessageTime = 1, goneTime = gone\<rparr>"

definition example_now :: Time where
  "example_now = 63900000000 * Second"

section \<open>Properties\<close>

subsection \<open>The loops as list functions\<close>

lemma name_example_status: "name (example_status nodeName gone) = nodeName"
  by (simp add: example_status_def)

lemma goneTime_example_status: "goneTime (example_status nodeName gone) = gone"
  by (simp add: example_status_def)

lemma Time_Sub_exact:
  "minDuration \<le> t - u \<Longrightarrow> t - u \<le> maxDuration \<Longrightarrow> Time_Sub t u = t - u"
  by (simp add: Time_Sub_def)

lemma Time_Sub_range: "minDuration \<le> Time_Sub t u \<and> Time_Sub t u \<le> maxDuration"
  by (simp add: Time_Sub_def minDuration_def maxDuration_def)

lemma remove_loop_filter:
  "remove_loop n xs acc c =
     (acc @ filter (\<lambda>ms. name ms \<noteq> n) xs,
      c + int (length (filter (\<lambda>ms. name ms = n) xs)))"
  by (induction xs arbitrary: acc c) simp_all

lemma cleanup_loop_filter:
  "cleanup_loop now tmo xs keep gone =
     (keep @ filter (\<lambda>ms. Time_Sub now (goneTime ms) \<le> tmo) xs,
      gone @ filter (\<lambda>ms. \<not> Time_Sub now (goneTime ms) \<le> tmo) xs)"
  by (induction xs arbitrary: keep gone) simp_all

lemma names_loop_map: "names_loop xs ret = ret @ map name xs"
  by (induction xs arbitrary: ret) simp_all

lemma remove_eq:
  "memberStatusBook_remove n msb =
     (int (length (filter (\<lambda>ms. name ms = n) (members msb))),
      msb\<lparr>members := filter (\<lambda>ms. name ms \<noteq> n) (members msb)\<rparr>)"
  by (simp add: memberStatusBook_remove_def remove_loop_filter)

lemma cleanup_eq:
  "memberStatusBook_cleanup now msb =
     (filter (\<lambda>ms. \<not> Time_Sub now (goneTime ms) \<le> timeout msb) (members msb),
      msb\<lparr>members := filter (\<lambda>ms. Time_Sub now (goneTime ms) \<le> timeout msb) (members msb)\<rparr>)"
  by (simp add: memberStatusBook_cleanup_def cleanup_loop_filter)

lemma names_eq: "memberStatusBook_names msb = map name (members msb)"
  by (simp add: memberStatusBook_names_def names_loop_map)

subsection \<open>The operation book: save\<close>

text \<open>
  Claim C1. For every operation book and every call \<^verbatim>\<open>save(kind, nodeName, messageTime)\<close>:
  the call returns true exactly when there is no record for the node or the stored
  record's message time is strictly less than the incoming one (the message type takes
  no part in the comparison); when it returns true the node's record becomes
  \<open>{kind, messageTime, now}\<close>; when it returns false, also for an equal message time,
  the book is unchanged.
\<close>

theorem save_accepts_iff_newer:
  "(fst (memberOperationBook_save clock kind nodeName msgTime mob) \<longleftrightarrow>
      (operations mob nodeName = None
       \<or> (\<exists>operation. operations mob nodeName = Some operation
              \<and> messageTime operation < msgTime)))
   \<and> (fst (memberOperationBook_save clock kind nodeName msgTime mob) \<longrightarrow>
        snd (memberOperationBook_save clock kind nodeName msgTime mob) =
          mob\<lparr>operations := (operations mob)(nodeName \<mapsto>
            \<lparr>msgType = kind, messageTime = msgTime, receiveTime = clock\<rparr>)\<rparr>)
   \<and> (\<not> fst (memberOperationBook_save clock kind nodeName msgTime mob) \<longrightarrow>
        snd (memberOperationBook_save clock kind nodeName msgTime mob) = mob)
   \<and> (\<forall>operation. operations mob nodeName = Some operation
          \<and> messageTime operation = msgTime \<longrightarrow>
        memberOperationBook_save clock kind nodeName msgTime mob = (False, mob))"
  by (auto simp: memberOperationBook_save_def split: option.splits)

text \<open>
  The first \<^verbatim>\<open>save("join", "n1", 5)\<close> on an empty book is accepted and stores the
  record; the same call again, with the equal time, is rejected and changes nothing.
\<close>

theorem save_accepts_iff_newer_witness:
  "memberOperationBook_save example_now ''join'' ''n1'' 5
      (createMemberOperationBook (10 * Second)) =
     (True, \<lparr>operations = [''n1'' \<mapsto>
               \<lparr>msgType = ''join'', messageTime = 5, receiveTime = example_now\<rparr>],
             opTimeout = 10 * Second\<rparr>)
   \<and> memberOperationBook_save (example_now + Second) ''join'' ''n1'' 5
        \<lparr>operations = [''n1'' \<mapsto>
           \<lparr>msgType = ''join'', messageTime = 5, receiveTime = example_now\<rparr>],
         opTimeout = 10 * Second\<rparr> =
     (False, \<lparr>operations = [''n1'' \<mapsto>
                \<lparr>msgType = ''join'', messageTime = 5, receiveTime = example_now\<rparr>],
              opTimeout = 10 * Second\<rparr>)"
  using
    save_accepts_iff_newer [of example_now "''join''" "''n1''" 5
      "createMemberOperationBook (10 * Second)"]
    save_accepts_iff_newer [of "example_now + Second" "''join''" "''n1''" 5
      "\<lparr>operations = [''n1'' \<mapsto>
          \<lparr>msgType = ''join'', messageTime = 5, receiveTime = example_now\<rparr>],
        opTimeout = 10 * Second\<rparr>"]
  by (simp add: createMemberOperationBook_def prod_eq_iff)

subsection \<open>The operation book: stored times never decrease\<close>

lemma save_keeps_slot:
  assumes "operations mob N = Some operation"
  shows "\<exists>operation'. operations (snd (memberOperationBook_save clock kind M t mob)) N
            = Some operation'
          \<and> messageTime operation \<le> messageTime operation'"
  using assms by (auto simp: memberOperationBook_save_def split: option.splits)

lemma save_sequence_keeps_slot:
  "operations mob N = Some operation \<Longrightarrow>
   \<exists>operation'. operations (save_sequence calls mob) N = Some operation'
      \<and> messageTime operation \<le> messageTime operation'"
proof (induction calls arbitrary: mob operation)
  case Nil
  then show ?case by simp
next
  case (Cons c calls)
  obtain clock kind M t where c: "c = (clock, kind, M, t)"
    by (cases c) auto
  from save_keeps_slot [OF Cons.prems, of clock kind M t]
  obtain op1 where
    op1: "operations (snd (memberOperationBook_save clock kind M t mob)) N = Some op1"
    and le1: "messageTime operation \<le> messageTime op1"
    by blast
  from Cons.IH [OF op1]
  obtain op2 where
    "operations (save_sequence calls (snd (memberOperationBook_save clock kind M t mob))) N
       = Some op2"
    and "messageTime op1 \<le> messageTime op2"
    by blast
  with le1 c show ?case by auto
qed

lemma save_stale_slot_unchanged:
  assumes "operations mob N = Some operation"
    and "M = N \<longrightarrow> t \<le> messageTime operation"
  shows "operations (snd (memberOperationBook_save clock kind M t mob)) N = Some operation"
  using assms by (auto simp: memberOperationBook_save_def split: option.splits)

lemma save_sequence_stale_slot_unchanged:
  "operations mob N = Some operation \<Longrightarrow>
   \<forall>c\<in>set calls. fst (snd (snd c)) = N \<longrightarrow> snd (snd (snd c)) \<le> messageTime operation \<Longrightarrow>
   operations (save_sequence calls mob) N = Some operation"
proof (induction calls arbitrary: mob)
  case Nil
  then show ?case by simp
next
  case (Cons c calls)
  obtain clock kind M t where c: "c = (clock, kind, M, t)"
    by (cases c) auto
  have "operations (snd (memberOperationBook_save clock kind M t mob)) N = Some operation"
    using Cons.prems c by (intro save_stale_slot_unchanged) auto
  from Cons.IH [OF this] Cons.prems(2) c show ?case by simp
qed

lemma save_rejects_stale:
  assumes "operations mob N = Some operation" and "t \<le> messageTime operation"
  shows "memberOperationBook_save clock kind N t mob = (False, mob)"
  using assms by (auto simp: memberOperationBook_save_def)

lemma save_accepted_slot:
  assumes "memberOperationBook_save clock kind N t mob = (True, mob1)"
  shows "operations mob1 N = Some \<lparr>msgType = kind, messageTime = t, receiveTime = clock\<rparr>"
  using assms by (auto simp: memberOperationBook_save_def split: if_splits)

text \<open>
  Claim C2. For every node \<open>N\<close>, across any sequence of \<^verbatim>\<open>save\<close> calls, the
  message time stored in the slot of \<open>N\<close> never decreases. If \<^verbatim>\<open>save(K, N, t1)\<close> was
  accepted and \<^verbatim>\<open>save(K', N, t2)\<close> with \<open>t2 \<le> t1\<close> is called later, after any
  sequence of other \<^verbatim>\<open>save\<close> calls, the later call returns false and leaves the book
  as it was; the stored time of \<open>N\<close> is then at least \<open>t1\<close>, and it is \<open>t1\<close> itself
  unless a call in between stored a newer time for \<open>N\<close>.
\<close>

theorem save_time_never_decreases:
  "(operations mob N = Some operation \<longrightarrow>
      (\<exists>operation'. operations (save_sequence calls mob) N = Some operation'
         \<and> messageTime operation \<le> messageTime operation'))
   \<and> (memberOperationBook_save clock kind N t1 mob = (True, mob1) \<and> t2 \<le> t1 \<longrightarrow>
        (\<exists>operation'. operations (save_sequence calls mob1) N = Some operation'
           \<and> t1 \<le> messageTime operation'
           \<and> ((\<forall>c\<in>set calls. fst (snd (snd c)) = N \<longrightarrow> snd (snd (snd c)) \<le> t1)
                \<longrightarrow> messageTime operation' = t1))
        \<and> memberOperationBook_save clock' kind' N t2 (save_sequence calls mob1) =
            (False, save_sequence calls mob1)
        \<and> memberOperationBook_save clock' kind' N t2 mob1 = (False, mob1)
        \<and> (\<exists>operation'. operations mob1 N = Some operation' \<and> messageTime operation' = t1))"
proof (intro conjI impI)
  assume "operations mob N = Some operation"
  then show "\<exists>operation'. operations (save_sequence calls mob) N = Some operation'
         \<and> messageTime operation \<le> messageTime operation'"
    by (rule save_sequence_keeps_slot)
next
  assume a: "memberOperationBook_save clock kind N t1 mob = (True, mob1) \<and> t2 \<le> t1"
  let ?new = "\<lparr>msgType = kind, messageTime = t1, receiveTime = clock\<rparr>"
  have slot: "operations mob1 N = Some ?new"
    using a by (intro save_accepted_slot [of clock kind N t1 mob]) simp
  from save_sequence_keeps_slot [OF slot, of calls]
  obtain op' where op': "operations (save_sequence calls mob1) N = Some op'"
    and le: "t1 \<le> messageTime op'"
    by auto
  have same: "messageTime op' = t1"
    if "\<forall>c\<in>set calls. fst (snd (snd c)) = N \<longrightarrow> snd (snd (snd c)) \<le> t1"
    using save_sequence_stale_slot_unchanged [OF slot, of calls] that op' by simp
  show "\<exists>operation'. operations (save_sequence calls mob1) N = Some operation'
           \<and> t1 \<le> messageTime operation'
           \<and> ((\<forall>c\<in>set calls. fst (snd (snd c)) = N \<longrightarrow> snd (snd (snd c)) \<le> t1)
                \<longrightarrow> messageTime operation' = t1)"
    using op' le same by blast
  from a have "t2 \<le> t1" by simp
  then have "t2 \<le> messageTime op'" using le by (rule order_trans)
  from save_rejects_stale [OF op' this]
  show "memberOperationBook_save clock' kind' N t2 (save_sequence calls mob1) =
            (False, save_sequence calls mob1)" .
  show "memberOperationBook_save clock' kind' N t2 mob1 = (False, mob1)"
    using a by (intro save_rejects_stale [OF slot]) simp
  show "\<exists>operation'. operations mob1 N = Some operation' \<and> messageTime operation' = t1"
    using slot by simp
qed

text \<open>
  A book holds \<open>join\<close> at time 5 for \<open>n1\<close>. \<^verbatim>\<open>save("leave", "n1", 8)\<close> is accepted.
  After a newer fact about \<open>n2\<close> and a stale one about \<open>n1\<close>, the call
  \<^verbatim>\<open>save("join", "n1", 6)\<close> is rejected and the stored time of \<open>n1\<close> is still 8.
\<close>

theorem save_time_never_decreases_witness:
  "operations
      \<lparr>operations = [''n1'' \<mapsto>
         \<lparr>msgType = ''join'', messageTime = 5, receiveTime = example_now\<rparr>],
       opTimeout = 10 * Second\<rparr> ''n1''
     = Some \<lparr>msgType = ''join'', messageTime = 5, receiveTime = example_now\<rparr>
   \<and> memberOperationBook_save (example_now + Second) ''leave'' ''n1'' 8
        \<lparr>operations = [''n1'' \<mapsto>
           \<lparr>msgType = ''join'', messageTime = 5, receiveTime = example_now\<rparr>],
         opTimeout = 10 * Second\<rparr>
     = (True,
        \<lparr>operations = [''n1'' \<mapsto>
           \<lparr>msgType = ''leave'', messageTime = 8, receiveTime = example_now + Second\<rparr>],
         opTimeout = 10 * Second\<rparr>)
   \<and> (6 :: logicalTime) \<le> 8
   \<and> memberOperationBook_save (example_now + 4 * Second) ''join'' ''n1'' 6
        (save_sequence
           [(example_now + 2 * Second, ''update'', ''n2'', 9),
            (example_now + 3 * Second, ''join'', ''n1'', 3)]
           \<lparr>operations = [''n1'' \<mapsto>
              \<lparr>msgType = ''leave'', messageTime = 8, receiveTime = example_now + Second\<rparr>],
            opTimeout = 10 * Second\<rparr>)
     = (False,
        save_sequence
           [(example_now + 2 * Second, ''update'', ''n2'', 9),
            (example_now + 3 * Second, ''join'', ''n1'', 3)]
           \<lparr>operations = [''n1'' \<mapsto>
              \<lparr>msgType = ''leave'', messageTime = 8, receiveTime = example_now + Second\<rparr>],
            opTimeout = 10 * Second\<rparr>)
   \<and> (\<exists>operation'.
         operations
           (save_sequence
              [(example_now + 2 * Second, ''update'', ''n2'', 9),
               (example_now + 3 * Second, ''join'', ''n1'', 3)]
              \<lparr>operations = [''n1'' \<mapsto>
                 \<lparr>msgType = ''leave'', messageTime = 8, receiveTime = example_now + Second\<rparr>],
               opTimeout = 10 * Second\<rparr>) ''n1'' = Some operation'
         \<and> messageTime operation' = 8)"
proof -
  let ?mob = "\<lparr>operations = [''n1'' \<mapsto>
         \<lparr>msgType = ''join'', messageTime = 5, receiveTime = example_now\<rparr>],
       opTimeout = 10 * Second\<rparr>"
  let ?mob1 = "\<lparr>operations = [''n1'' \<mapsto>
           \<lparr>msgType = ''leave'', messageTime = 8, receiveTime = example_now + Second\<rparr>],
         opTimeout = 10 * Second\<rparr>"
  let ?calls = "[(example_now + 2 * Second, ''update'', ''n2'', 9 :: logicalTime),
            (example_now + 3 * Second, ''join'', ''n1'', 3)]"
  have stored: "operations ?mob ''n1''
      = Some \<lparr>msgType = ''join'', messageTime = 5, receiveTime = example_now\<rparr>"
    by simp
  have accepted: "memberOperationBook_save (example_now + Second) ''leave'' ''n1'' 8 ?mob
      = (True, ?mob1)"
    by (simp add: memberOperationBook_save_def)
  have older: "(6 :: logicalTime) \<le> 8"
    by simp
  have stale: "\<forall>c\<in>set ?calls. fst (snd (snd c)) = ''n1'' \<longrightarrow> snd (snd (snd c)) \<le> 8"
    by simp
  from save_time_never_decreases
    [where mob = ?mob and N = "''n1''" and calls = ?calls and clock = "example_now + Second"
       and kind = "''leave''" and ?t1.0 = 8 and ?mob1.0 = ?mob1 and ?t2.0 = 6
       and clock' = "example_now + 4 * Second" and kind' = "''join''"]
    accepted older stale
  have "(\<exists>operation'. operations (save_sequence ?calls ?mob1) ''n1'' = Some operation'
           \<and> messageTime operation' = 8)
        \<and> memberOperationBook_save (example_now + 4 * Second) ''join'' ''n1'' 6
             (save_sequence ?calls ?mob1) = (False, save_sequence ?calls ?mob1)"
    by blast
  with stored accepted older show ?thesis
    by blast
qed

subsection \<open>The operation book: get\<close>

text \<open>
  Claim C4. \<^verbatim>\<open>get(nodeName, kind)\<close> returns (false, zero logical time) when there is
  no record for the node or the stored record has another message type; otherwise it
  returns (true, the stored message time). In particular, after an accepted
  \<^verbatim>\<open>save("join", "n1", 5)\<close>, \<^verbatim>\<open>get("n1", "leave")\<close> returns (false, zero) and
  \<^verbatim>\<open>get("n1", "join")\<close> returns (true, 5).
\<close>

theorem get_kind_isolation:
  "(operations mob nodeName = None \<longrightarrow>
      memberOperationBook_get nodeName kind mob = (False, zeroLogicalTime))
   \<and> (\<forall>operation. operations mob nodeName = Some operation \<and> msgType operation \<noteq> kind \<longrightarrow>
        memberOperationBook_get nodeName kind mob = (False, zeroLogicalTime))
   \<and> (\<forall>operation. operations mob nodeName = Some operation \<and> msgType operation = kind \<longrightarrow>
        memberOperationBook_get nodeName kind mob = (True, messageTime operation))
   \<and> (fst (memberOperationBook_save clock kind nodeName msgTime mob) \<and> kind' \<noteq> kind \<longrightarrow>
        memberOperationBook_get nodeName kind'
          (snd (memberOperationBook_save clock kind nodeName msgTime mob))
          = (False, zeroLogicalTime)
        \<and> memberOperationBook_get nodeName kind
          (snd (memberOperationBook_save clock kind nodeName msgTime mob)) = (True, msgTime))"
  by (auto simp: memberOperationBook_get_def memberOperationBook_save_def split: option.splits)

text \<open>
  On the empty book \<^verbatim>\<open>get("n1", "join")\<close> finds nothing; \<^verbatim>\<open>save("join", "n1", 5)\<close>
  is accepted there, and then \<^verbatim>\<open>get("n1", "leave")\<close> returns (false, 0) and
  \<^verbatim>\<open>get("n1", "join")\<close> returns (true, 5).
\<close>

theorem get_kind_isolation_witness:
  "operations (createMemberOperationBook (10 * Second) :: string memberOperationBook) ''n1''
     = None
   \<and> memberOperationBook_get ''n1'' ''join'' (createMemberOperationBook (10 * Second))
     = (False, 0)
   \<and> fst (memberOperationBook_save example_now ''join'' ''n1'' 5
        (createMemberOperationBook (10 * Second)))
   \<and> ''leave'' \<noteq> ''join''
   \<and> memberOperationBook_get ''n1'' ''leave''
        (snd (memberOperationBook_save example_now ''join'' ''n1'' 5
           (createMemberOperationBook (10 * Second)))) = (False, 0)
   \<and> memberOperationBook_get ''n1'' ''join''
        (snd (memberOperationBook_save example_now ''join'' ''n1'' 5
           (createMemberOperationBook (10 * Second)))) = (True, 5)"
proof -
  let ?mob = "createMemberOperationBook (10 * Second) :: string memberOperationBook"
  have none: "operations ?mob ''n1'' = None"
    by (simp add: createMemberOperationBook_def)
  have accepted: "fst (memberOperationBook_save example_now ''join'' ''n1'' 5 ?mob)"
    by (simp add: memberOperationBook_save_def none)
  have other: "''leave'' \<noteq> ''join''"
    by simp
  from get_kind_isolation
    [where mob = ?mob and nodeName = "''n1''" and kind = "''join''" and kind' = "''leave''"
       and clock = example_now and msgTime = 5]
    none accepted other
  show ?thesis
    by (simp add: zeroLogicalTime_def)
qed

subsection \<open>The operation book: cleanup\<close>

lemma operations_cleanup_loop_other:
  "k \<notin> set order \<Longrightarrow> operations_cleanup_loop now tmo order ops k = ops k"
  by (induction order arbitrary: ops) (auto split: option.splits)

lemma operations_cleanup_loop_visited:
  "k \<in> set order \<Longrightarrow>
   operations_cleanup_loop now tmo order ops k =
     (case ops k of
        None \<Rightarrow> None
      | Some operation \<Rightarrow>
          if Time_Sub now (receiveTime operation) > tmo then None else Some operation)"
proof (induction order arbitrary: ops)
  case Nil
  then show ?case by simp
next
  case (Cons n order)
  show ?case
  proof (cases "k \<in> set order")
    case True
    then show ?thesis
      by (auto simp: Cons.IH split: option.splits)
  next
    case False
    with Cons.prems have "k = n" by simp
    with False show ?thesis
      by (auto simp: operations_cleanup_loop_other split: option.splits)
  qed
qed

text \<open>
  Claim C8. For every operation book and every call \<^verbatim>\<open>cleanup(now)\<close>, whatever the
  order in which the loop visits the keys: exactly the records with
  \<^verbatim>\<open>now.Sub(receiveTime) > timeout\<close> are deleted, whatever their message time and
  message type, and every other record is retained unchanged.
\<close>

theorem operations_cleanup_by_receive_time:
  "set order = dom (operations mob) \<Longrightarrow>
   operations (memberOperationBook_cleanup order now mob) =
     (\<lambda>nodeName. case operations mob nodeName of
        None \<Rightarrow> None
      | Some operation \<Rightarrow>
          if Time_Sub now (receiveTime operation) > opTimeout mob then None
          else Some operation)
   \<and> opTimeout (memberOperationBook_cleanup order now mob) = opTimeout mob"
proof (intro conjI ext)
  fix nodeName
  assume dom: "set order = dom (operations mob)"
  show "operations (memberOperationBook_cleanup order now mob) nodeName =
     (case operations mob nodeName of
        None \<Rightarrow> None
      | Some operation \<Rightarrow>
          if Time_Sub now (receiveTime operation) > opTimeout mob then None
          else Some operation)"
  proof (cases "nodeName \<in> set order")
    case True
    then show ?thesis
      by (simp add: memberOperationBook_cleanup_def operations_cleanup_loop_visited)
  next
    case False
    with dom have "operations mob nodeName = None" by auto
    with False show ?thesis
      by (simp add: memberOperationBook_cleanup_def operations_cleanup_loop_other)
  qed
next
  show "opTimeout (memberOperationBook_cleanup order now mob) = opTimeout mob"
    by (simp add: memberOperationBook_cleanup_def)
qed

text \<open>
  With a timeout of 10 seconds, a sweep 12 seconds after \<open>n1\<close> was received and 7
  seconds after \<open>n2\<close> was received deletes \<open>n1\<close>, although its message time is the
  greater one, and retains \<open>n2\<close>.
\<close>

theorem operations_cleanup_by_receive_time_witness:
  "set [''n2'', ''n1''] =
     dom (operations
       \<lparr>operations =
          [''n1'' \<mapsto> \<lparr>msgType = ''join'', messageTime = 9, receiveTime = example_now\<rparr>,
           ''n2'' \<mapsto> \<lparr>msgType = ''join'', messageTime = 2,
                     receiveTime = example_now + 5 * Second\<rparr>],
        opTimeout = 10 * Second\<rparr>)
   \<and> operations (memberOperationBook_cleanup [''n2'', ''n1''] (example_now + 12 * Second)
       \<lparr>operations =
          [''n1'' \<mapsto> \<lparr>msgType = ''join'', messageTime = 9, receiveTime = example_now\<rparr>,
           ''n2'' \<mapsto> \<lparr>msgType = ''join'', messageTime = 2,
                     receiveTime = example_now + 5 * Second\<rparr>],
        opTimeout = 10 * Second\<rparr>) ''n1'' = None
   \<and> operations (memberOperationBook_cleanup [''n2'', ''n1''] (example_now + 12 * Second)
       \<lparr>operations =
          [''n1'' \<mapsto> \<lparr>msgType = ''join'', messageTime = 9, receiveTime = example_now\<rparr>,
           ''n2'' \<mapsto> \<lparr>msgType = ''join'', messageTime = 2,
                     receiveTime = example_now + 5 * Second\<rparr>],
        opTimeout = 10 * Second\<rparr>) ''n2''
     = Some \<lparr>msgType = ''join'', messageTime = 2, receiveTime = example_now + 5 * Second\<rparr>"
proof -
  let ?mob = "\<lparr>operations =
          [''n1'' \<mapsto> \<lparr>msgType = ''join'', messageTime = 9 :: logicalTime,
                     receiveTime = example_now\<rparr>,
           ''n2'' \<mapsto> \<lparr>msgType = ''join'', messageTime = 2,
                     receiveTime = example_now + 5 * Second\<rparr>],
        opTimeout = 10 * Second\<rparr>"
  have keys: "set [''n2'', ''n1''] = dom (operations ?mob)"
    by auto
  have "operations (memberOperationBook_cleanup [''n2'', ''n1''] (example_now + 12 * Second) ?mob)
      = (\<lambda>nodeName. case operations ?mob nodeName of
           None \<Rightarrow> None
         | Some operation \<Rightarrow>
             if Time_Sub (example_now + 12 * Second) (receiveTime operation) > opTimeout ?mob
             then None else Some operation)"
    using operations_cleanup_by_receive_time [OF keys, of "example_now + 12 * Second"]
    by (rule conjunct1)
  then show ?thesis
    using keys by (simp add: Time_Sub_def minDuration_def maxDuration_def Second_def)
qed

subsection \<open>The status book: add and remove\<close>

text \<open>
  Claim C9. \<^verbatim>\<open>add(status)\<close> appends the record unconditionally, with no check of
  its name: afterwards \<^verbatim>\<open>Count()\<close> is one greater than before, the records held
  before are all still there, unchanged and in their places, and the timeout of the
  book is unchanged.
\<close>

theorem add_appends:
  "memberStatusBook_Count (memberStatusBook_add ms msb) = memberStatusBook_Count msb + 1
   \<and> members (memberStatusBook_add ms msb) = members msb @ [ms]
   \<and> take (length (members msb)) (members (memberStatusBook_add ms msb)) = members msb
   \<and> timeout (memberStatusBook_add ms msb) = timeout msb"
  by (simp add: memberStatusBook_add_def memberStatusBook_Count_def)

text \<open>
  Claim C7. \<^verbatim>\<open>remove(name)\<close> removes all records whose name is \<open>name\<close>, duplicates
  included, and returns how many it removed; it returns 0 exactly when no record has
  that name, and a second \<^verbatim>\<open>remove(name)\<close> right after the first returns 0.
\<close>

theorem remove_all_matching:
  "fst (memberStatusBook_remove n msb) =
     int (length (filter (\<lambda>ms. name ms = n) (members msb)))
   \<and> members (snd (memberStatusBook_remove n msb)) =
       filter (\<lambda>ms. name ms \<noteq> n) (members msb)
   \<and> timeout (snd (memberStatusBook_remove n msb)) = timeout msb
   \<and> (fst (memberStatusBook_remove n msb) = 0) = (n \<notin> name ` set (members msb))
   \<and> fst (memberStatusBook_remove n (snd (memberStatusBook_remove n msb))) = 0"
proof -
  have "(filter (\<lambda>ms. name ms = n) (members msb) = []) = (n \<notin> name ` set (members msb))"
    by (auto simp: filter_empty_conv)
  then show ?thesis
    by (simp add: remove_eq)
qed

text \<open>
  Two records named \<open>n1\<close> and one named \<open>n2\<close> are added to an empty book;
  \<^verbatim>\<open>remove("n1")\<close> returns 2 and leaves the record of \<open>n2\<close>, and \<^verbatim>\<open>remove("n1")\<close>
  again returns 0.
\<close>

theorem remove_all_matching_witness:
  "fst (memberStatusBook_remove ''n1''
      (memberStatusBook_add (example_status ''n1'' (example_now + Second))
        (memberStatusBook_add (example_status ''n2'' example_now)
          (memberStatusBook_add (example_status ''n1'' example_now)
            (createMemberStatusBook (10 * Second)))))) = 2
   \<and> members (snd (memberStatusBook_remove ''n1''
      (memberStatusBook_add (example_status ''n1'' (example_now + Second))
        (memberStatusBook_add (example_status ''n2'' example_now)
          (memberStatusBook_add (example_status ''n1'' example_now)
            (createMemberStatusBook (10 * Second))))))) = [example_status ''n2'' example_now]
   \<and> fst (memberStatusBook_remove ''n1'' (snd (memberStatusBook_remove ''n1''
      (memberStatusBook_add (example_status ''n1'' (example_now + Second))
        (memberStatusBook_add (example_status ''n2'' example_now)
          (memberStatusBook_add (example_status ''n1'' example_now)
            (createMemberStatusBook (10 * Second)))))))) = 0"
  using remove_all_matching [of "''n1''"
      "memberStatusBook_add (example_status ''n1'' (example_now + Second))
        (memberStatusBook_add (example_status ''n2'' example_now)
          (memberStatusBook_add (example_status ''n1'' example_now)
            (createMemberStatusBook (10 * Second))))"]
  by (simp add: memberStatusBook_add_def createMemberStatusBook_def name_example_status)

subsection \<open>The status book: cleanup\<close>

text \<open>
  Claim C3, as the code has it. \<^verbatim>\<open>cleanup(now)\<close> splits the records by the one test
  \<^verbatim>\<open>now.Sub(goneTime) <= timeout\<close>: the records that pass are retained, in their
  order; the records that fail are removed, and exactly they are returned. A record
  whose \<open>goneTime\<close> is unset is judged by the same test, with the zero time as its
  \<open>goneTime\<close>; nothing retains it for being live.
\<close>

theorem status_cleanup_partition:
  "fst (memberStatusBook_cleanup now msb) =
     filter (\<lambda>ms. Time_Sub now (goneTime ms) > timeout msb) (members msb)
   \<and> members (snd (memberStatusBook_cleanup now msb)) =
       filter (\<lambda>ms. Time_Sub now (goneTime ms) \<le> timeout msb) (members msb)
   \<and> timeout (snd (memberStatusBook_cleanup now msb)) = timeout msb
   \<and> set (fst (memberStatusBook_cleanup now msb))
       \<union> set (members (snd (memberStatusBook_cleanup now msb))) = set (members msb)
   \<and> set (fst (memberStatusBook_cleanup now msb))
       \<inter> set (members (snd (memberStatusBook_cleanup now msb))) = {}
   \<and> length (fst (memberStatusBook_cleanup now msb))
       + length (members (snd (memberStatusBook_cleanup now msb))) = length (members msb)"
proof -
  have gt: "(\<lambda>ms. \<not> Time_Sub now (goneTime ms) \<le> timeout msb)
      = (\<lambda>ms :: 'a memberStatus. Time_Sub now (goneTime ms) > timeout msb)"
    by (simp add: not_le)
  have len: "length (filter (\<lambda>ms. Time_Sub now (goneTime ms) > timeout msb) (members msb))
      + length (filter (\<lambda>ms. Time_Sub now (goneTime ms) \<le> timeout msb) (members msb))
      = length (members msb)"
    using sum_length_filter_compl [of "\<lambda>ms. Time_Sub now (goneTime ms) \<le> timeout msb"
        "members msb"]
    by (simp add: gt)
  show ?thesis
    unfolding cleanup_eq gt using len by auto
qed

text \<open>
  The timeout is 10 seconds and a record has gone time \<open>t0\<close>: \<^verbatim>\<open>cleanup(t0 + 9s)\<close>
  retains it and returns nothing; \<^verbatim>\<open>cleanup(t0 + 11s)\<close> removes and returns it.
\<close>

theorem status_cleanup_partition_witness:
  "memberStatusBook_cleanup (example_now + 9 * Second)
      \<lparr>members = [example_status ''n1'' example_now], timeout = 10 * Second\<rparr>
     = ([], \<lparr>members = [example_status ''n1'' example_now], timeout = 10 * Second\<rparr>)
   \<and> memberStatusBook_cleanup (example_now + 11 * Second)
      \<lparr>members = [example_status ''n1'' example_now], timeout = 10 * Second\<rparr>
     = ([example_status ''n1'' example_now], \<lparr>members = [], timeout = 10 * Second\<rparr>)"
  using
    status_cleanup_partition [of "example_now + 9 * Second"
      "\<lparr>members = [example_status ''n1'' example_now], timeout = 10 * Second\<rparr>"]
    status_cleanup_partition [of "example_now + 11 * Second"
      "\<lparr>members = [example_status ''n1'' example_now], timeout = 10 * Second\<rparr>"]
  by (simp add: prod_eq_iff memberStatusBook.equality goneTime_example_status
      Time_Sub_def minDuration_def maxDuration_def Second_def)

text \<open>
  The claim as the spec words it, that a live record (\<open>goneTime\<close> unset) is retained,
  fails: with a timeout of 10 seconds, a sweep in the year 2025 removes and returns the
  one record of the book, whose \<open>goneTime\<close> is the zero time.
\<close>

theorem status_cleanup_live_counterexample:
  "goneTime (example_status ''n1'' zeroTime) = zeroTime
   \<and> memberStatusBook_cleanup example_now
       \<lparr>members = [example_status ''n1'' zeroTime], timeout = 10 * Second\<rparr>
     = ([example_status ''n1'' zeroTime], \<lparr>members = [], timeout = 10 * Second\<rparr>)"
  by (simp add: cleanup_eq goneTime_example_status Time_Sub_def minDuration_def
      maxDuration_def Second_def example_now_def zeroTime_def)

text \<open>
  Claim C6, as the code has it. A second \<^verbatim>\<open>cleanup(now)\<close> with the same \<open>now\<close>, and
  no \<^verbatim>\<open>add\<close> in between, returns no record and leaves the book as the first call
  left it.
\<close>

theorem status_cleanup_idempotent:
  "fst (memberStatusBook_cleanup now (snd (memberStatusBook_cleanup now msb))) = []
   \<and> snd (memberStatusBook_cleanup now (snd (memberStatusBook_cleanup now msb))) =
       snd (memberStatusBook_cleanup now msb)"
  by (simp add: cleanup_eq)

text \<open>
  With a later \<open>now\<close> the second call can return a record: the timeout is 10 seconds
  and the record has gone time \<open>t0\<close>; \<^verbatim>\<open>cleanup(t0 + 9s)\<close> retains it, and
  \<^verbatim>\<open>cleanup(t0 + 11s)\<close> after it returns the record and empties the book.
\<close>

theorem status_cleanup_later_now_counterexample:
  "example_now + 9 * Second \<le> example_now + 11 * Second
   \<and> memberStatusBook_cleanup (example_now + 11 * Second)
       (snd (memberStatusBook_cleanup (example_now + 9 * Second)
          \<lparr>members = [example_status ''n1'' example_now], timeout = 10 * Second\<rparr>))
     = ([example_status ''n1'' example_now], \<lparr>members = [], timeout = 10 * Second\<rparr>)
   \<and> snd (memberStatusBook_cleanup (example_now + 9 * Second)
          \<lparr>members = [example_status ''n1'' example_now], timeout = 10 * Second\<rparr>)
     = \<lparr>members = [example_status ''n1'' example_now], timeout = 10 * Second\<rparr>"
  by (simp add: cleanup_eq goneTime_example_status Time_Sub_def minDuration_def
      maxDuration_def Second_def)

subsection \<open>The status book: remove and cleanup keep the order\<close>

text \<open>
  Claim C10. \<^verbatim>\<open>remove\<close> and \<^verbatim>\<open>cleanup\<close> are order-preserving filters: the records
  retained by \<^verbatim>\<open>remove(name)\<close> are the prior sequence with exactly the records of that
  name deleted, the records retained by \<^verbatim>\<open>cleanup(now)\<close> are the prior sequence with
  exactly the returned (expired) records deleted, and \<^verbatim>\<open>names()\<close> afterwards lists
  the surviving names in the order they had before.
\<close>

theorem remove_cleanup_keep_order:
  "members (snd (memberStatusBook_remove n msb)) =
     filter (\<lambda>ms. name ms \<noteq> n) (members msb)
   \<and> members (snd (memberStatusBook_cleanup now msb)) =
       filter (\<lambda>ms. ms \<notin> set (fst (memberStatusBook_cleanup now msb))) (members msb)
   \<and> members (snd (memberStatusBook_cleanup now msb)) =
       filter (\<lambda>ms. \<not> Time_Sub now (goneTime ms) > timeout msb) (members msb)
   \<and> memberStatusBook_names (snd (memberStatusBook_remove n msb)) =
       filter (\<lambda>x. x \<noteq> n) (memberStatusBook_names msb)
   \<and> memberStatusBook_names (snd (memberStatusBook_cleanup now msb)) =
       map name (filter (\<lambda>ms. \<not> Time_Sub now (goneTime ms) > timeout msb) (members msb))
   \<and> subseq (members (snd (memberStatusBook_remove n msb))) (members msb)
   \<and> subseq (members (snd (memberStatusBook_cleanup now msb))) (members msb)
   \<and> subseq (memberStatusBook_names (snd (memberStatusBook_remove n msb)))
       (memberStatusBook_names msb)
   \<and> subseq (memberStatusBook_names (snd (memberStatusBook_cleanup now msb)))
       (memberStatusBook_names msb)"
proof -
  let ?keep = "\<lambda>ms :: 'a memberStatus. Time_Sub now (goneTime ms) \<le> timeout msb"
  have le: "(\<lambda>ms :: 'a memberStatus. \<not> Time_Sub now (goneTime ms) > timeout msb) = ?keep"
    by (simp add: not_less)
  have removed: "members (snd (memberStatusBook_cleanup now msb)) =
       filter (\<lambda>ms. ms \<notin> set (fst (memberStatusBook_cleanup now msb))) (members msb)"
    by (simp add: cleanup_eq cong: filter_cong)
  have names_remove: "map name (filter (\<lambda>ms. name ms \<noteq> n) (members msb))
      = filter (\<lambda>x. x \<noteq> n) (map name (members msb))"
    by (simp add: filter_map comp_def)
  have sub_names: "subseq (map name (filter P (members msb))) (map name (members msb))" for P
    by (intro subseq_map subseq_filter_left)
  have rest: "members (snd (memberStatusBook_remove n msb)) =
       filter (\<lambda>ms. name ms \<noteq> n) (members msb)
     \<and> members (snd (memberStatusBook_cleanup now msb)) = filter ?keep (members msb)
     \<and> memberStatusBook_names (snd (memberStatusBook_remove n msb)) =
         filter (\<lambda>x. x \<noteq> n) (memberStatusBook_names msb)
     \<and> memberStatusBook_names (snd (memberStatusBook_cleanup now msb)) =
         map name (filter ?keep (members msb))
     \<and> subseq (members (snd (memberStatusBook_remove n msb))) (members msb)
     \<and> subseq (members (snd (memberStatusBook_cleanup now msb))) (members msb)
     \<and> subseq (memberStatusBook_names (snd (memberStatusBook_remove n msb)))
         (memberStatusBook_names msb)
     \<and> subseq (memberStatusBook_names (snd (memberStatusBook_cleanup now msb)))
         (memberStatusBook_names msb)"
    by (simp add: remove_eq cleanup_eq names_eq names_remove sub_names)
  show ?thesis
    unfolding le using removed rest by blast
qed

subsection \<open>The status book: randGet\<close>

lemma int32_small: "0 \<le> x \<Longrightarrow> x < 2 ^ 31 \<Longrightarrow> int32 x = x"
  by (simp add: int32_def)

lemma randGet_small:
  assumes "length (members msb) < 2 ^ 31"
  shows "memberStatusBook_randGet r msb =
     (if members msb = [] then Inl Panic_Int31n_invalid_argument
      else Inr (members msb ! (r mod length (members msb))))"
proof -
  have len: "int32 (int (length (members msb))) = int (length (members msb))"
    using assms by (intro int32_small) auto
  show ?thesis
  proof (cases "members msb = []")
    case True
    then show ?thesis
      by (simp add: memberStatusBook_randGet_def Int31n_def int32_def)
  next
    case False
    then have pos: "0 < length (members msb)" by simp
    have idx: "nat (int r mod int (length (members msb))) = r mod length (members msb)"
      by (simp add: nat_mod_distrib flip: zmod_int)
    show ?thesis
      using False pos
      by (simp add: memberStatusBook_randGet_def Int31n_def len idx)
  qed
qed

text \<open>Every record of a book of fewer than \<open>2^31\<close> records is returned for some draw.\<close>

lemma randGet_reaches_every_member:
  assumes "length (members msb) < 2 ^ 31" and "i < length (members msb)"
  shows "memberStatusBook_randGet i msb = Inr (members msb ! i)"
  using assms by (auto simp: randGet_small)

text \<open>
  Claim C5, as the code has it. For every book of at least one and fewer than \<open>2^31\<close>
  records, \<^verbatim>\<open>randGet\<close> returns one of the records held; for an empty book it fails
  (the panic of \<^verbatim>\<open>rand.Int31n\<close> on the argument 0). Among the books of fewer than
  \<open>2^31\<close> records, it fails exactly on the empty one.
\<close>

theorem randGet_returns_member:
  "length (members msb) < 2 ^ 31 \<Longrightarrow>
   (members msb \<noteq> [] \<longrightarrow> (\<exists>ms\<in>set (members msb). memberStatusBook_randGet r msb = Inr ms))
   \<and> (members msb = [] \<longrightarrow> memberStatusBook_randGet r msb = Inl Panic_Int31n_invalid_argument)
   \<and> (isl (memberStatusBook_randGet r msb) \<longleftrightarrow> members msb = [])"
  by (simp add: randGet_small)

text \<open>
  On a book of two records the draw 5 selects index 1; on the empty book the call
  panics.
\<close>

theorem randGet_returns_member_witness:
  "length (members
      \<lparr>members = [example_status ''n1'' example_now, example_status ''n2'' example_now],
       timeout = 10 * Second\<rparr>) < 2 ^ 31
   \<and> memberStatusBook_randGet 5
       \<lparr>members = [example_status ''n1'' example_now, example_status ''n2'' example_now],
        timeout = 10 * Second\<rparr> = Inr (example_status ''n2'' example_now)
   \<and> memberStatusBook_randGet 5 (createMemberStatusBook (10 * Second) :: nat memberStatusBook)
       = Inl Panic_Int31n_invalid_argument"
  using
    randGet_returns_member [of
      "\<lparr>members = [example_status ''n1'' example_now, example_status ''n2'' example_now],
        timeout = 10 * Second\<rparr>" 5]
    randGet_returns_member [of
      "createMemberStatusBook (10 * Second) :: nat memberStatusBook" 5]
  by (simp add: createMemberStatusBook_def memberStatusBook_randGet_def Int31n_def int32_def)

text \<open>
  The claim for every non-empty book fails where \<^verbatim>\<open>int32(len(msb.members))\<close> is not
  positive: on a book of \<open>2^31\<close> records the conversion gives \<open>-2^31\<close> and
  \<^verbatim>\<open>rand.Int31n\<close> panics, although the book is not empty.
\<close>

theorem randGet_huge_book_counterexample:
  "members \<lparr>members = replicate (2 ^ 31) (example_status ''n1'' example_now),
            timeout = 10 * Second\<rparr> \<noteq> []
   \<and> memberStatusBook_randGet 0
       \<lparr>members = replicate (2 ^ 31) (example_status ''n1'' example_now),
        timeout = 10 * Second\<rparr> = Inl Panic_Int31n_invalid_argument"
  by (simp add: memberStatusBook_randGet_def Int31n_def int32_def)

end
